theory Spec2Isabelle
  imports Complex_Main "HOL-Library.Multiset"
begin

section \<open>Data model\<close>

text \<open>
  The service works on JSON objects. A meal is a Python dict in which every key may be
  missing; each field is therefore optional, and every read goes through \<open>get_or\<close>, the
  model of \<^verbatim>\<open>dict.get(key, default)\<close>. Numbers are Python ints and floats; they are
  modelled as exact reals, so rounding of floating-point arithmetic is not part of the model.
  A nested dict (the nutrition of a meal) is an association list of its items, in the
  order of the dict; the keys of a dict are distinct.
\<close>

record meal =
  name :: "string option"
  cuisine :: "string option"
  ingredients :: "string list option"
  tags :: "string list option"
  prepTime :: "real option"
  difficulty :: "string option"
  nutrition :: "(string \<times> real) list option"
  rating :: "real option"

definition get_or :: "'a option \<Rightarrow> 'a \<Rightarrow> 'a" where
  "get_or v d = (case v of None \<Rightarrow> d | Some x \<Rightarrow> x)"

text \<open>The exceptions the modelled code can raise.\<close>

datatype py_error = ZeroDivisionError | IndexError | TypeError

section \<open>Strings\<close>

text \<open>\<^verbatim>\<open>str.lower\<close> on ASCII letters; other characters are unchanged.\<close>

definition lower_char :: "char \<Rightarrow> char" where
  "lower_char c =
     (let n = (of_char c :: nat) in if 65 \<le> n \<and> n \<le> 90 then char_of (n + 32) else c)"

definition lower :: "string \<Rightarrow> string" where
  "lower s = map lower_char s"

text \<open>\<^verbatim>\<open>sep.join(xs)\<close>.\<close>

fun join :: "string \<Rightarrow> string list \<Rightarrow> string" where
  "join sep [] = []"
| "join sep [x] = x"
| "join sep (x # y # ys) = x @ sep @ join sep (y # ys)"

text \<open>\<^verbatim>\<open>sub in s\<close> for strings: \<open>sub\<close> occurs in \<open>s\<close> as a contiguous substring.\<close>

fun starts_with :: "string \<Rightarrow> string \<Rightarrow> bool" where
  "starts_with s [] = True"
| "starts_with [] (c # cs) = False"
| "starts_with (x # xs) (c # cs) = (x = c \<and> starts_with xs cs)"

fun contains :: "string \<Rightarrow> string \<Rightarrow> bool" where
  "contains [] sub = (sub = [])"
| "contains (x # xs) sub = (starts_with (x # xs) sub \<or> contains xs sub)"

section \<open>Dietary filter\<close>

definition meal_tags :: "meal \<Rightarrow> string list" where
  "meal_tags m = map lower (get_or (tags m) [])"

definition meal_ingredients :: "meal \<Rightarrow> string list" where
  "meal_ingredients m = map lower (get_or (ingredients m) [])"

text \<open>\<^verbatim>\<open>any(w in ' '.join(meal_ingredients) for w in words)\<close>\<close>

definition any_ingredient :: "meal \<Rightarrow> string list \<Rightarrow> bool" where
  "any_ingredient m ws = list_ex (\<lambda>w. contains (join '' '' (meal_ingredients m)) w) ws"

text \<open>\<^verbatim>\<open>meal.get('nutrition', {}).get(k, d)\<close>\<close>

definition nutrition_get :: "meal \<Rightarrow> string \<Rightarrow> real \<Rightarrow> real" where
  "nutrition_get m k d = get_or (map_of (get_or (nutrition m) []) k) d"

text \<open>
  The table \<^verbatim>\<open>restriction_checks\<close>: the value stored under a restriction name,
  evaluated on the meal, or \<open>None\<close> when the name is not a key of the table.
\<close>

definition restriction_checks :: "meal \<Rightarrow> string \<Rightarrow> bool option" where
  "restriction_checks m r =
     (if r = ''vegetarian'' then
        Some (''vegetarian'' \<in> set (meal_tags m) \<or>
              \<not> any_ingredient m [''chicken'', ''beef'', ''pork'', ''fish'', ''turkey'', ''lamb''])
      else if r = ''vegan'' then
        Some (''vegan'' \<in> set (meal_tags m) \<or>
              (''vegetarian'' \<in> set (meal_tags m) \<and>
               \<not> any_ingredient m [''milk'', ''cheese'', ''butter'', ''cream'', ''yogurt'', ''egg'']))
      else if r = ''gluten-free'' then
        Some (''gluten-free'' \<in> set (meal_tags m) \<or>
              \<not> any_ingredient m [''wheat'', ''flour'', ''bread'', ''pasta'', ''barley'', ''rye''])
      else if r = ''dairy-free'' then
        Some (''dairy-free'' \<in> set (meal_tags m) \<or>
              \<not> any_ingredient m [''milk'', ''cheese'', ''butter'', ''cream'', ''yogurt''])
      else if r = ''low-carb'' then
        Some (nutrition_get m ''carbs'' 50 < 30)
      else if r = ''keto'' then
        Some (nutrition_get m ''carbs'' 50 < 20 \<and> nutrition_get m ''healthy_fats'' 0 > 15)
      else None)"

definition supported_restrictions :: "string list" where
  "supported_restrictions =
     [''vegetarian'', ''vegan'', ''gluten-free'', ''dairy-free'', ''low-carb'', ''keto'']"

text \<open>The loop over the requested restrictions, with its early \<^verbatim>\<open>return False\<close>.\<close>

fun meets_dietary_restrictions :: "meal \<Rightarrow> string list \<Rightarrow> bool" where
  "meets_dietary_restrictions m [] = True"
| "meets_dietary_restrictions m (restriction # rs) =
     (case restriction_checks m (lower restriction) of
        Some ok \<Rightarrow> if \<not> ok then False else meets_dietary_restrictions m rs
      | None \<Rightarrow> meets_dietary_restrictions m rs)"

section \<open>Preference learner\<close>

text \<open>
  The value stored under \<^verbatim>\<open>avg_prep_time\<close> is either a Python number (the default 30) or
  the \<^verbatim>\<open>numpy.float64\<close> that \<^verbatim>\<open>np.mean\<close> returns. The two kinds differ when they are
  the divisor of a division by zero, so the model keeps the kind.
\<close>

datatype pynum = PyNum real | NpFloat real

record preferences =
  preferred_cuisines :: "(string \<rightharpoonup> real) option"
  preferred_ingredients :: "(string \<rightharpoonup> real) option"
  avg_prep_time :: "pynum option"
  preferred_difficulty :: "real option"
  variety_score :: "real option"

definition default_preferences :: preferences where
  "default_preferences =
     \<lparr>preferred_cuisines = Some [''italian'' \<mapsto> 3, ''mexican'' \<mapsto> 3, ''american'' \<mapsto> 3],
      preferred_ingredients = Some Map.empty,
      avg_prep_time = Some (PyNum 30),
      preferred_difficulty = Some 2,
      variety_score = Some 0.8\<rparr>"

text \<open>\<^verbatim>\<open>counter[k] += r\<close> on a \<^verbatim>\<open>Counter\<close>, where a missing key counts as 0.\<close>

definition counter_add :: "(string \<rightharpoonup> real) \<Rightarrow> string \<Rightarrow> real \<Rightarrow> (string \<rightharpoonup> real)" where
  "counter_add c k r = c(k \<mapsto> get_or (c k) 0 + r)"

definition difficulty_mapping :: "string \<rightharpoonup> real" where
  "difficulty_mapping = [''easy'' \<mapsto> 1, ''medium'' \<mapsto> 2, ''hard'' \<mapsto> 3]"

text \<open>\<^verbatim>\<open>np.mean\<close> of a non-empty list.\<close>

definition np_mean :: "real list \<Rightarrow> real" where
  "np_mean xs = sum_list xs / real (length xs)"

text \<open>The four accumulators of the loop over the history, and one iteration of it.\<close>

record learner =
  cuisine_scores :: "string \<rightharpoonup> real"
  ingredient_scores :: "string \<rightharpoonup> real"
  prep_time_preferences :: "real list"
  difficulty_preferences :: "real list"

definition learn_meal :: "meal \<Rightarrow> learner \<Rightarrow> learner" where
  "learn_meal m st =
     (let r = get_or (rating m) 3 in
      \<lparr>cuisine_scores = counter_add (cuisine_scores st) (get_or (cuisine m) ''unknown'') r,
       ingredient_scores =
         fold (\<lambda>ingredient c. counter_add c (lower ingredient) r)
           (get_or (ingredients m) []) (ingredient_scores st),
       prep_time_preferences = prep_time_preferences st @ [get_or (prepTime m) 30],
       difficulty_preferences = difficulty_preferences st @
         [get_or (difficulty_mapping (get_or (difficulty m) ''medium'')) 2]\<rparr>)"

definition analyze_user_preferences :: "meal list \<Rightarrow> preferences" where
  "analyze_user_preferences meal_history =
     (if meal_history = [] then default_preferences
      else
        let st = fold learn_meal meal_history
                   \<lparr>cuisine_scores = Map.empty, ingredient_scores = Map.empty,
                    prep_time_preferences = [], difficulty_preferences = []\<rparr>;
            total_meals = length meal_history
        in \<lparr>preferred_cuisines = Some (cuisine_scores st),
            preferred_ingredients = Some (ingredient_scores st),
            avg_prep_time =
              Some (if prep_time_preferences st \<noteq> []
                    then NpFloat (np_mean (prep_time_preferences st)) else PyNum 30),
            preferred_difficulty =
              Some (if difficulty_preferences st \<noteq> []
                    then np_mean (difficulty_preferences st) else 2),
            variety_score =
              Some (if total_meals > 0
                    then real (card (set (map (\<lambda>m. get_or (name m) []) meal_history)))
                           / real total_meals
                    else 1)\<rparr>)"

section \<open>Meal scorer\<close>

definition cuisine_score :: "meal \<Rightarrow> preferences \<Rightarrow> real" where
  "cuisine_score m user_prefs =
     get_or (get_or (preferred_cuisines user_prefs) Map.empty (get_or (cuisine m) ''unknown'')) 2.5
       / 5"

definition ingredient_score :: "meal \<Rightarrow> preferences \<Rightarrow> real" where
  "ingredient_score m user_prefs =
     (let ings = get_or (ingredients m) [];
          scores = get_or (preferred_ingredients user_prefs) Map.empty
      in if ings \<noteq> []
         then np_mean (map (\<lambda>ing. get_or (scores (lower ing)) 2.5) ings) / 5
         else 0)"

text \<open>
  \<^verbatim>\<open>time_diff = abs(prep_time - preferred_time) / preferred_time\<close>. Dividing by a Python
  zero raises \<^verbatim>\<open>ZeroDivisionError\<close>. Dividing by a \<^verbatim>\<open>numpy.float64\<close> zero raises nothing:
  numpy warns and the quotient is \<^verbatim>\<open>inf\<close> for a positive numerator and \<^verbatim>\<open>nan\<close> for the
  numerator 0 (the numerator is an absolute value, and the zero is taken as the mean of
  non-negative prep times).
\<close>

datatype quotient = Finite real | Infinity | NaN

fun time_diff :: "real \<Rightarrow> pynum \<Rightarrow> py_error + quotient" where
  "time_diff prep_time (PyNum preferred_time) =
     (if preferred_time = 0 then Inl ZeroDivisionError
      else Inr (Finite (\<bar>prep_time - preferred_time\<bar> / preferred_time)))"
| "time_diff prep_time (NpFloat preferred_time) =
     (if preferred_time = 0
      then Inr (if \<bar>prep_time - preferred_time\<bar> = 0 then NaN else Infinity)
      else Inr (Finite (\<bar>prep_time - preferred_time\<bar> / preferred_time)))"

text \<open>
  \<^verbatim>\<open>time_score = max(0, 1 - time_diff)\<close>: \<^verbatim>\<open>1 - inf\<close> is \<^verbatim>\<open>-inf\<close>, below 0, and
  \<^verbatim>\<open>max(0, nan)\<close> keeps its first argument, since no comparison with \<^verbatim>\<open>nan\<close> holds.
\<close>

fun time_score :: "quotient \<Rightarrow> real" where
  "time_score (Finite d) = max 0 (1 - d)"
| "time_score Infinity = 0"
| "time_score NaN = 0"

definition difficulty_score :: "meal \<Rightarrow> preferences \<Rightarrow> real" where
  "difficulty_score m user_prefs =
     (let meal_difficulty = get_or (difficulty_mapping (get_or (difficulty m) ''medium'')) 2;
          difficulty_diff = \<bar>meal_difficulty - get_or (preferred_difficulty user_prefs) 2\<bar> / 2
      in max 0 (1 - difficulty_diff))"

text \<open>
  \<^verbatim>\<open>xs.index(x)\<close>, the position of the first occurrence; it is only called under the
  guard \<^verbatim>\<open>x in xs\<close>.
\<close>

fun index :: "'a list \<Rightarrow> 'a \<Rightarrow> nat" where
  "index [] x = 0"
| "index (y # ys) x = (if y = x then 0 else Suc (index ys x))"

definition variety_penalty :: "string list \<Rightarrow> string \<Rightarrow> real" where
  "variety_penalty recent_meals meal_name =
     0.5 * (1 - real (index recent_meals meal_name) / real (length recent_meals))"

definition calculate_meal_score :: "meal \<Rightarrow> preferences \<Rightarrow> string list \<Rightarrow> py_error + real" where
  "calculate_meal_score m user_prefs recent_meals =
     (let score = 0;
          score = score + cuisine_score m user_prefs * 0.3;
          score = score + ingredient_score m user_prefs * 0.25
      in case time_diff (get_or (prepTime m) 30) (get_or (avg_prep_time user_prefs) (PyNum 30)) of
           Inl e \<Rightarrow> Inl e
         | Inr d \<Rightarrow>
             let score = score + time_score d * 0.15;
                 score = score + difficulty_score m user_prefs * 0.15;
                 meal_name = get_or (name m) [];
                 score = (if meal_name \<in> set recent_meals
                          then score - variety_penalty recent_meals meal_name * 0.15
                          else score + 0.15)
             in Inr (min 1 (max 0 score)))"

section \<open>Nutrition balancer\<close>

definition weekly_targets :: "(string \<times> real) list" where
  "weekly_targets =
     [(''protein'', 350), (''carbs'', 1400), (''fiber'', 175), (''healthy_fats'', 280),
      (''vitamins'', 100), (''minerals'', 100)]"

text \<open>
  The loop that sums the nutrition of the meals into a \<^verbatim>\<open>defaultdict(float)\<close>; the
  balancer and the analyzer both start with it.
\<close>

definition add_nutrition :: "meal \<Rightarrow> (string \<rightharpoonup> real) \<Rightarrow> (string \<rightharpoonup> real)" where
  "add_nutrition m totals =
     fold (\<lambda>(nutrient, v) t. t(nutrient \<mapsto> get_or (t nutrient) 0 + v))
       (get_or (nutrition m) []) totals"

definition nutrition_totals :: "meal list \<Rightarrow> (string \<rightharpoonup> real)" where
  "nutrition_totals meals = fold add_nutrition meals Map.empty"

definition nutrition_gaps :: "meal list \<Rightarrow> (string \<times> real) list" where
  "nutrition_gaps meals =
     map (\<lambda>(nutrient, target).
            (nutrient, max 0 (target - get_or (nutrition_totals meals nutrient) 0)))
       weekly_targets"

definition nutrition_priority_score :: "(string \<times> real) list \<Rightarrow> meal \<Rightarrow> real" where
  "nutrition_priority_score gaps_list m =
     fold (\<lambda>(nutrient, gap) score.
             if gap > 0
             then score + nutrition_get m nutrient 0 *
                    (gap / get_or (map_of weekly_targets nutrient) 1)
             else score)
       gaps_list 0"

text \<open>
  \<^verbatim>\<open>list.sort(key=..., reverse=True)\<close> is stable: descending keys, equal keys in their
  original order. That is the stable ascending sort \<open>sort_key\<close> on the negated key.
\<close>

definition balance_nutrition_weekly :: "meal list \<Rightarrow> meal list" where
  "balance_nutrition_weekly meals =
     (if length meals < 7 then meals
      else
        let gaps_list = nutrition_gaps meals;
            meals_with_scores = map (\<lambda>m. (m, nutrition_priority_score gaps_list m)) meals
        in map fst (sort_key (\<lambda>x. - snd x) meals_with_scores))"

section \<open>Nutrition analyzer\<close>

definition weekly_recommendations :: "(string \<times> real) list" where
  "weekly_recommendations =
     [(''protein'', 350), (''carbs'', 1400), (''fiber'', 175), (''healthy_fats'', 280),
      (''vitamins'', 100), (''minerals'', 100)]"

record analysis =
  current_totals :: "string \<rightharpoonup> real"
  recommendations :: "(string \<times> real) list"
  gaps :: "string \<rightharpoonup> real"
  excesses :: "string \<rightharpoonup> real"
  balance_score :: real

text \<open>The balance score of one nutrient, between 0 and 1.\<close>

definition nutrient_balance_score :: "real \<Rightarrow> real \<Rightarrow> real" where
  "nutrient_balance_score current recommended =
     (let ratio = (if recommended > 0 then current / recommended else 0)
      in if ratio \<le> 2 then 1 - \<bar>1 - ratio\<bar> else 0)"

text \<open>
  One iteration of the loop over the recommendations; the state is the report under
  construction and the list \<^verbatim>\<open>balance_scores\<close>.
\<close>

definition analyze_nutrient ::
  "(string \<rightharpoonup> real) \<Rightarrow> string \<times> real \<Rightarrow> analysis \<times> real list \<Rightarrow> analysis \<times> real list" where
  "analyze_nutrient total_nutrition entry st =
     (let nutrient = fst entry; recommended = snd entry;
          a = fst st; balance_scores = snd st;
          current = get_or (total_nutrition nutrient) 0;
          a = (if current < recommended * 0.8
               then a\<lparr>gaps := (gaps a)(nutrient \<mapsto> recommended - current)\<rparr>
               else if current > recommended * 1.2
               then a\<lparr>excesses := (excesses a)(nutrient \<mapsto> current - recommended)\<rparr>
               else a)
      in (a, balance_scores @ [nutrient_balance_score current recommended]))"

definition analysis_loop :: "meal list \<Rightarrow> analysis \<times> real list" where
  "analysis_loop meal_plan =
     (let total_nutrition = nutrition_totals meal_plan
      in fold (analyze_nutrient total_nutrition) weekly_recommendations
           (\<lparr>current_totals = total_nutrition, recommendations = weekly_recommendations,
             gaps = Map.empty, excesses = Map.empty, balance_score = 0\<rparr>, []))"

definition analyze_nutrition_gaps :: "meal list \<Rightarrow> analysis" where
  "analyze_nutrition_gaps meal_plan =
     (let a = fst (analysis_loop meal_plan);
          balance_scores = snd (analysis_loop meal_plan)
      in a\<lparr>balance_score := (if balance_scores \<noteq> [] then np_mean balance_scores else 0)\<rparr>)"

section \<open>Plan generator\<close>

text \<open>
  The pseudorandom source is a parameter: \<open>rng k a b\<close> is what the \<open>k\<close>-th call of
  \<^verbatim>\<open>random.uniform(a, b)\<close> returns.
\<close>

type_synonym rng = "nat \<Rightarrow> real \<Rightarrow> real \<Rightarrow> real"

text \<open>
  The walk over \<^verbatim>\<open>enumerate(weights)\<close>, and what follows the loop when no cumulative
  weight reaches the draw.
\<close>

fun choice_loop :: "'a list \<Rightarrow> real list \<Rightarrow> nat \<Rightarrow> real \<Rightarrow> real \<Rightarrow> py_error + 'a option" where
  "choice_loop items [] i cumulative_weight random_value =
     Inr (if items \<noteq> [] then Some (last items) else None)"
| "choice_loop items (weight # ws) i cumulative_weight random_value =
     (let cumulative_weight = cumulative_weight + weight
      in if random_value \<le> cumulative_weight
         then (if i < length items then Inr (Some (items ! i)) else Inl IndexError)
         else choice_loop items ws (Suc i) cumulative_weight random_value)"

definition weighted_random_choice ::
  "'a list \<Rightarrow> real list \<Rightarrow> (real \<Rightarrow> real \<Rightarrow> real) \<Rightarrow> py_error + 'a option" where
  "weighted_random_choice items weights uniform =
     (let total_weight = sum_list weights;
          random_value = uniform 0 total_weight
      in choice_loop items weights 0 0 random_value)"

text \<open>The scoring loop over the filtered meals; a raising score ends it.\<close>

fun score_all :: "preferences \<Rightarrow> string list \<Rightarrow> meal list \<Rightarrow> py_error + (meal \<times> real) list" where
  "score_all user_prefs recent_meals [] = Inr []"
| "score_all user_prefs recent_meals (m # ms) =
     (case calculate_meal_score m user_prefs recent_meals of
        Inl e \<Rightarrow> Inl e
      | Inr score \<Rightarrow>
          (case score_all user_prefs recent_meals ms of
             Inl e \<Rightarrow> Inl e
           | Inr rest \<Rightarrow> Inr ((m, score) # rest)))"

text \<open>
  The state of the selection loop: the plan so far, the set of names already used, and
  the number of draws made from the pseudorandom source.
\<close>

record plan_state =
  selected_meals :: "meal list"
  used_meals :: "string set"
  draws :: nat

definition candidate_weights :: "(meal \<times> real) list \<Rightarrow> real list" where
  "candidate_weights available_candidates = map (\<lambda>c. snd c + 0.1) available_candidates"

text \<open>
  One day of the selection loop. \<^verbatim>\<open>selected_meal[0]\<close> on \<^verbatim>\<open>None\<close> would be a
  \<^verbatim>\<open>TypeError\<close>.
\<close>

definition plan_day :: "rng \<Rightarrow> (meal \<times> real) list \<Rightarrow> plan_state \<Rightarrow> py_error + plan_state" where
  "plan_day rng meal_scores st =
     (let available_candidates =
            filter (\<lambda>c. get_or (name (fst c)) [] \<notin> used_meals st) meal_scores;
          reset = (available_candidates = []);
          available_candidates = (if reset then meal_scores else available_candidates);
          used = (if reset then {} else used_meals st)
      in if available_candidates \<noteq> [] then
           (case weighted_random_choice available_candidates
                   (candidate_weights available_candidates) (rng (draws st)) of
              Inl e \<Rightarrow> Inl e
            | Inr None \<Rightarrow> Inl TypeError
            | Inr (Some selected_meal) \<Rightarrow>
                Inr \<lparr>selected_meals = selected_meals st @ [fst selected_meal],
                     used_meals = insert (get_or (name (fst selected_meal)) []) used,
                     draws = Suc (draws st)\<rparr>)
         else Inr (st\<lparr>used_meals := used\<rparr>))"

text \<open>\<^verbatim>\<open>for day in range(days)\<close>, with the iterations left as the counter.\<close>

fun plan_loop :: "rng \<Rightarrow> (meal \<times> real) list \<Rightarrow> nat \<Rightarrow> plan_state \<Rightarrow> py_error + plan_state" where
  "plan_loop rng meal_scores 0 st = Inr st"
| "plan_loop rng meal_scores (Suc n) st =
     (case plan_day rng meal_scores st of
        Inl e \<Rightarrow> Inl e
      | Inr st' \<Rightarrow> plan_loop rng meal_scores n st')"

text \<open>
  \<^verbatim>\<open>days\<close> is a Python int; \<^verbatim>\<open>range(days)\<close> is empty for \<^verbatim>\<open>days <= 0\<close>. A missing
  \<^verbatim>\<open>dietary_restrictions\<close> is the empty list. \<^verbatim>\<open>meal_history[-14:]\<close> is the last 14
  entries, or all of them when there are fewer.
\<close>

definition filtered_meals :: "meal list \<Rightarrow> string list \<Rightarrow> meal list" where
  "filtered_meals available_meals dietary_restrictions =
     filter (\<lambda>m. meets_dietary_restrictions m dietary_restrictions) available_meals"

definition generate_smart_meal_plan ::
  "rng \<Rightarrow> meal list \<Rightarrow> meal list \<Rightarrow> int \<Rightarrow> string list \<Rightarrow> py_error + meal list" where
  "generate_smart_meal_plan rng available_meals meal_history days dietary_restrictions =
     (let user_prefs = analyze_user_preferences meal_history;
          filtered = filtered_meals available_meals dietary_restrictions
      in if filtered = [] then Inr []
         else
           let recent_meals =
                 map (\<lambda>m. get_or (name m) []) (drop (length meal_history - 14) meal_history)
           in case score_all user_prefs recent_meals filtered of
                Inl e \<Rightarrow> Inl e
              | Inr meal_scores \<Rightarrow>
                  (case plan_loop rng (sort_key (\<lambda>x. - snd x) meal_scores) (nat days)
                          \<lparr>selected_meals = [], used_meals = {}, draws = 0\<rparr> of
                     Inl e \<Rightarrow> Inl e
                   | Inr st \<Rightarrow> Inr (balance_nutrition_weekly (selected_meals st))))"

section \<open>Example inputs\<close>

definition empty_meal :: meal where
  "empty_meal = \<lparr>name = None, cuisine = None, ingredients = None, tags = None,
     prepTime = None, difficulty = None, nutrition = None, rating = None\<rparr>"

text \<open>A meal tagged vegan whose ingredients nevertheless list chicken.\<close>

definition vegan_chicken :: meal where
  "vegan_chicken = empty_meal\<lparr>name := Some ''Mislabelled'', tags := Some [''vegan''],
     ingredients := Some [''Chicken'', ''rice'']\<rparr>"


text \<open>A week of seven meals, the last of which alone lists any nutrition.\<close>

definition protein_meal :: meal where
  "protein_meal = empty_meal\<lparr>name := Some ''Lentils'', nutrition := Some [(''protein'', 40)]\<rparr>"

definition week_plan :: "meal list" where
  "week_plan = [empty_meal, empty_meal, empty_meal, empty_meal, empty_meal, empty_meal, protein_meal]"

text \<open>A week of seven meals that list carbs only: 1750 in total, and no protein.\<close>

definition carb_meal :: meal where
  "carb_meal = empty_meal\<lparr>name := Some ''Rice'', nutrition := Some [(''carbs'', 250)]\<rparr>"

definition carb_week :: "meal list" where
  "carb_week = [carb_meal, carb_meal, carb_meal, carb_meal, carb_meal, carb_meal, carb_meal]"

text \<open>Two scored candidates, the second with score 0, and a source whose draw is fixed.\<close>

definition two_candidates :: "(meal \<times> real) list" where
  "two_candidates = [(protein_meal, 0.5), (empty_meal, 0)]"

definition draw_of :: "real \<Rightarrow> real \<Rightarrow> real \<Rightarrow> real" where
  "draw_of v a b = v"

text \<open>A pseudorandom source all of whose draws are the same value.\<close>

definition constant_rng :: "real \<Rightarrow> rng" where
  "constant_rng v k = draw_of v"

text \<open>A history entry whose prep time is 0.\<close>

definition zero_prep_meal :: meal where
  "zero_prep_meal = empty_meal\<lparr>name := Some ''Water'', prepTime := Some 0\<rparr>"

section \<open>Properties of the dietary filter\<close>

lemma restriction_checks_unsupported:
  "r \<notin> set supported_restrictions \<Longrightarrow> restriction_checks m r = None"
  by (simp add: restriction_checks_def supported_restrictions_def)

lemma lower_vegan: "lower ''vegan'' = ''vegan''"
  by code_simp

lemma lower_vegetarian: "lower ''vegetarian'' = ''vegetarian''"
  by code_simp

lemma lower_Chicken: "lower ''Chicken'' = ''chicken''"
  by code_simp

lemma lower_rice: "lower ''rice'' = ''rice''"
  by code_simp

lemma lower_paleo: "lower ''Paleo'' = ''paleo''"
  by code_simp

text \<open>
  C5. The filter is conjunctive: a meal passes the two restrictions \<open>r1, r2\<close> together
  exactly when it passes each of them alone. A restriction whose lower-cased name (the
  filter compares names case-insensitively) is none of the six supported ones is passed
  by every meal.
\<close>

theorem dietary_filter_conjunctive:
  "(meets_dietary_restrictions m [r1, r2] \<longleftrightarrow>
      meets_dietary_restrictions m [r1] \<and> meets_dietary_restrictions m [r2]) \<and>
   (lower r \<notin> set supported_restrictions \<longrightarrow> meets_dietary_restrictions m [r])"
  by (auto simp: restriction_checks_unsupported split: option.splits)

theorem dietary_filter_conjunctive_witness:
  "lower ''Paleo'' \<notin> set supported_restrictions \<and>
   meets_dietary_restrictions vegan_chicken [''Paleo'']"
  using dietary_filter_conjunctive [of vegan_chicken "''vegan''" "''vegetarian''" "''Paleo''"]
  by (simp add: lower_paleo supported_restrictions_def)

text \<open>
  C10. Passing \<open>vegan\<close> does not imply passing \<open>vegetarian\<close>: a meal tagged vegan with
  chicken among its ingredients passes the first, on its tag alone, and fails the second.
\<close>

theorem vegan_not_implies_vegetarian:
  "\<exists>m. meets_dietary_restrictions m [''vegan''] \<and>
       \<not> meets_dietary_restrictions m [''vegetarian'']"
proof (intro exI conjI)
  show "meets_dietary_restrictions vegan_chicken [''vegan'']"
    by (simp add: lower_vegan restriction_checks_def meal_tags_def vegan_chicken_def
        empty_meal_def get_or_def)
  show "\<not> meets_dietary_restrictions vegan_chicken [''vegetarian'']"
    by (simp add: lower_vegetarian lower_vegan lower_Chicken lower_rice restriction_checks_def
        meal_tags_def meal_ingredients_def any_ingredient_def vegan_chicken_def empty_meal_def
        get_or_def)
qed

section \<open>Properties of the meal scorer\<close>

lemma time_diff_total: "p \<noteq> PyNum 0 \<Longrightarrow> \<exists>d. time_diff t p = Inr d"
  by (cases p) auto

text \<open>
  C2. Whenever the preferred prep time is not a Python zero (the one divisor on which
  the division of the prep-time term raises), \<open>calculate_meal_score\<close> returns a score, and
  the score lies in the closed interval from 0 to 1, whatever the ratings, the prep
  times and the number of ingredients are.
\<close>

theorem score_in_unit_interval:
  assumes "get_or (avg_prep_time user_prefs) (PyNum 30) \<noteq> PyNum 0"
  shows "\<exists>s. calculate_meal_score m user_prefs recent_meals = Inr s \<and> 0 \<le> s \<and> s \<le> 1"
proof -
  obtain d where
    "time_diff (get_or (prepTime m) 30) (get_or (avg_prep_time user_prefs) (PyNum 30)) = Inr d"
    using time_diff_total [OF assms] by blast
  then show ?thesis
    by (simp add: calculate_meal_score_def Let_def)
qed

theorem score_in_unit_interval_witness:
  "get_or (avg_prep_time default_preferences) (PyNum 30) \<noteq> PyNum 0 \<and>
   (\<exists>s. calculate_meal_score vegan_chicken default_preferences [] = Inr s \<and> 0 \<le> s \<and> s \<le> 1)"
  using score_in_unit_interval [of default_preferences vegan_chicken "[]"]
  by (simp add: default_preferences_def get_or_def)






section \<open>Properties of the nutrition balancer\<close>

lemma mset_map_fst_sort_key:
  "mset (map fst (sort_key f (map (\<lambda>m. (m, g m)) ms))) = mset ms"
proof -
  have "mset (map fst (sort_key f (map (\<lambda>m. (m, g m)) ms)))
      = image_mset fst (mset (sort_key f (map (\<lambda>m. (m, g m)) ms)))"
    by simp
  also have "\<dots> = image_mset fst (mset (map (\<lambda>m. (m, g m)) ms))"
    by (simp only: mset_sort)
  also have "\<dots> = mset ms"
    by (simp add: image_mset.compositionality comp_def)
  finally show ?thesis .
qed

lemma balance_short: "length meals < 7 \<Longrightarrow> balance_nutrition_weekly meals = meals"
  by (simp add: balance_nutrition_weekly_def)

lemma mset_balance: "mset (balance_nutrition_weekly meals) = mset meals"
proof (cases "length meals < 7")
  case True
  then show ?thesis by (simp add: balance_short)
next
  case False
  then have "balance_nutrition_weekly meals =
      map fst (sort_key (\<lambda>x. - snd x)
        (map (\<lambda>m. (m, nutrition_priority_score (nutrition_gaps meals) m)) meals))"
    by (simp add: balance_nutrition_weekly_def Let_def)
  then show ?thesis
    by (simp only: mset_map_fst_sort_key)
qed

text \<open>
  C4. \<open>balance_nutrition_weekly\<close> returns its input unchanged when the list has fewer
  than 7 meals, and a permutation of its input (the same multiset of meals) when it has 7
  or more.
\<close>

theorem balance_identity_or_permutation:
  "(length meals < 7 \<longrightarrow> balance_nutrition_weekly meals = meals) \<and>
   (7 \<le> length meals \<longrightarrow> mset (balance_nutrition_weekly meals) = mset meals)"
  using balance_short [of meals] mset_balance [of meals] by blast

theorem balance_identity_or_permutation_witness:
  "length [protein_meal] < 7 \<and> balance_nutrition_weekly [protein_meal] = [protein_meal] \<and>
   7 \<le> length week_plan \<and> mset (balance_nutrition_weekly week_plan) = mset week_plan"
  using balance_identity_or_permutation [of "[protein_meal]"]
    balance_identity_or_permutation [of week_plan]
  by (simp add: week_plan_def)

section \<open>Properties of the nutrition analyzer\<close>

lemma add_items_other:
  "k \<notin> fst ` set items \<Longrightarrow>
   fold (\<lambda>(nutrient, v) t. t(nutrient \<mapsto> get_or (t nutrient) 0 + v)) items totals k = totals k"
  by (induction items arbitrary: totals) auto

lemma add_nutrition_other:
  "k \<notin> fst ` set (get_or (nutrition m) []) \<Longrightarrow> add_nutrition m totals k = totals k"
  by (simp add: add_nutrition_def add_items_other)

lemma fold_add_nutrition_other:
  "\<forall>m\<in>set meals. k \<notin> fst ` set (get_or (nutrition m) []) \<Longrightarrow>
   fold add_nutrition meals totals k = totals k"
  by (induction meals arbitrary: totals) (simp_all add: add_nutrition_other)

lemma nutrition_totals_lacking:
  "\<forall>m\<in>set meals. k \<notin> fst ` set (get_or (nutrition m) []) \<Longrightarrow> nutrition_totals meals k = None"
  by (simp add: nutrition_totals_def fold_add_nutrition_other)

lemma analyze_fold_scores:
  "snd (fold (analyze_nutrient tot) recs st) =
     snd st @ map (\<lambda>e. nutrient_balance_score (get_or (tot (fst e)) 0) (snd e)) recs"
  by (induction recs arbitrary: st) (simp_all add: analyze_nutrient_def Let_def)

lemma analyze_fold_gaps_other:
  "n \<notin> fst ` set recs \<Longrightarrow> gaps (fst (fold (analyze_nutrient tot) recs st)) n = gaps (fst st) n"
  by (induction recs arbitrary: st) (auto simp: analyze_nutrient_def Let_def)

lemma analyze_fold_excesses_other:
  "n \<notin> fst ` set recs \<Longrightarrow>
   excesses (fst (fold (analyze_nutrient tot) recs st)) n = excesses (fst st) n"
  by (induction recs arbitrary: st) (auto simp: analyze_nutrient_def Let_def)

lemma analyze_fold_gaps:
  "distinct (map fst recs) \<Longrightarrow> (n, t) \<in> set recs \<Longrightarrow>
   gaps (fst (fold (analyze_nutrient tot) recs st)) n =
     (if get_or (tot n) 0 < t * 0.8 then Some (t - get_or (tot n) 0) else gaps (fst st) n)"
proof (induction recs arbitrary: st)
  case Nil
  then show ?case by simp
next
  case (Cons e recs)
  show ?case
  proof (cases "e = (n, t)")
    case True
    then have "n \<notin> fst ` set recs" using Cons.prems(1) by auto
    then show ?thesis
      using True by (simp add: analyze_fold_gaps_other) (simp add: analyze_nutrient_def Let_def)
  next
    case False
    then have mem: "(n, t) \<in> set recs" using Cons.prems(2) by auto
    then have "n \<in> fst ` set recs" by force
    then have "fst e \<noteq> n" using Cons.prems(1) by auto
    then have "gaps (fst (analyze_nutrient tot e st)) n = gaps (fst st) n"
      by (simp add: analyze_nutrient_def Let_def)
    moreover have "distinct (map fst recs)" using Cons.prems(1) by simp
    ultimately show ?thesis
      using Cons.IH [OF _ mem, of "analyze_nutrient tot e st"] by simp
  qed
qed

lemma analyze_fold_excesses:
  "distinct (map fst recs) \<Longrightarrow> (n, t) \<in> set recs \<Longrightarrow>
   excesses (fst (fold (analyze_nutrient tot) recs st)) n =
     (if \<not> get_or (tot n) 0 < t * 0.8 \<and> get_or (tot n) 0 > t * 1.2
      then Some (get_or (tot n) 0 - t) else excesses (fst st) n)"
proof (induction recs arbitrary: st)
  case Nil
  then show ?case by simp
next
  case (Cons e recs)
  show ?case
  proof (cases "e = (n, t)")
    case True
    then have "n \<notin> fst ` set recs" using Cons.prems(1) by auto
    then show ?thesis
      using True by (simp add: analyze_fold_excesses_other) (simp add: analyze_nutrient_def Let_def)
  next
    case False
    then have mem: "(n, t) \<in> set recs" using Cons.prems(2) by auto
    then have "n \<in> fst ` set recs" by force
    then have "fst e \<noteq> n" using Cons.prems(1) by auto
    then have "excesses (fst (analyze_nutrient tot e st)) n = excesses (fst st) n"
      by (simp add: analyze_nutrient_def Let_def)
    moreover have "distinct (map fst recs)" using Cons.prems(1) by simp
    ultimately show ?thesis
      using Cons.IH [OF _ mem, of "analyze_nutrient tot e st"] by simp
  qed
qed

lemma distinct_recommendations: "distinct (map fst weekly_recommendations)"
  by (simp add: weekly_recommendations_def)

lemma recommendations_positive: "(n, t) \<in> set weekly_recommendations \<Longrightarrow> 0 < t"
  by (auto simp: weekly_recommendations_def)

lemma gaps_analyze:
  assumes "(n, t) \<in> set weekly_recommendations"
  shows "gaps (analyze_nutrition_gaps plan) n =
     (if get_or (nutrition_totals plan n) 0 < t * 0.8
      then Some (t - get_or (nutrition_totals plan n) 0) else None)"
  using analyze_fold_gaps [OF distinct_recommendations assms]
  by (simp add: analyze_nutrition_gaps_def analysis_loop_def Let_def)

lemma excesses_analyze:
  assumes "(n, t) \<in> set weekly_recommendations"
  shows "excesses (analyze_nutrition_gaps plan) n =
     (if get_or (nutrition_totals plan n) 0 > t * 1.2
      then Some (get_or (nutrition_totals plan n) 0 - t) else None)"
proof -
  have "0 < t" using assms by (rule recommendations_positive)
  then have "get_or (nutrition_totals plan n) 0 > t * 1.2 \<Longrightarrow>
      \<not> get_or (nutrition_totals plan n) 0 < t * 0.8"
    by simp
  then show ?thesis
    using analyze_fold_excesses [OF distinct_recommendations assms]
    by (auto simp add: analyze_nutrition_gaps_def analysis_loop_def Let_def)
qed

lemma balance_scores_analyze:
  "snd (analysis_loop plan) =
     map (\<lambda>e. nutrient_balance_score (get_or (nutrition_totals plan (fst e)) 0) (snd e))
       weekly_recommendations"
  by (simp add: analysis_loop_def Let_def analyze_fold_scores)

text \<open>
  C6. For each of the 6 target nutrients, with \<open>current\<close> the plan's total (0 when no meal
  lists the nutrient): the report holds a gap, equal to target minus current, exactly
  when current is below 80% of the target; it holds an excess, equal to current minus
  target, exactly when current is above 120% of the target; otherwise it holds neither.
  A plan none of whose meals lists protein has the protein gap 350, and the balance score
  of protein, the first entry of \<^verbatim>\<open>balance_scores\<close>, is 0.
\<close>

theorem analyze_gaps_and_excesses:
  "(\<forall>(n, t) \<in> set weekly_recommendations.
      gaps (analyze_nutrition_gaps plan) n =
        (if get_or (nutrition_totals plan n) 0 < t * 0.8
         then Some (t - get_or (nutrition_totals plan n) 0) else None) \<and>
      excesses (analyze_nutrition_gaps plan) n =
        (if get_or (nutrition_totals plan n) 0 > t * 1.2
         then Some (get_or (nutrition_totals plan n) 0 - t) else None)) \<and>
   length weekly_recommendations = 6 \<and>
   ((\<forall>m \<in> set plan. ''protein'' \<notin> fst ` set (get_or (nutrition m) [])) \<longrightarrow>
      gaps (analyze_nutrition_gaps plan) ''protein'' = Some 350 \<and>
      weekly_recommendations ! 0 = (''protein'', 350) \<and>
      snd (analysis_loop plan) ! 0 = 0)"
proof (intro conjI impI)
  show "\<forall>(n, t) \<in> set weekly_recommendations.
      gaps (analyze_nutrition_gaps plan) n =
        (if get_or (nutrition_totals plan n) 0 < t * 0.8
         then Some (t - get_or (nutrition_totals plan n) 0) else None) \<and>
      excesses (analyze_nutrition_gaps plan) n =
        (if get_or (nutrition_totals plan n) 0 > t * 1.2
         then Some (get_or (nutrition_totals plan n) 0 - t) else None)"
    using gaps_analyze excesses_analyze by blast
  show "length weekly_recommendations = 6"
    by (simp add: weekly_recommendations_def)
  show "weekly_recommendations ! 0 = (''protein'', 350)"
    by (simp add: weekly_recommendations_def)
next
  assume lack: "\<forall>m \<in> set plan. ''protein'' \<notin> fst ` set (get_or (nutrition m) [])"
  then have tot: "nutrition_totals plan ''protein'' = None"
    by (rule nutrition_totals_lacking)
  have mem: "(''protein'', 350) \<in> set weekly_recommendations"
    by (simp add: weekly_recommendations_def)
  show "gaps (analyze_nutrition_gaps plan) ''protein'' = Some 350"
    using gaps_analyze [OF mem, of plan] tot by (simp add: get_or_def)
  show "snd (analysis_loop plan) ! 0 = 0"
    unfolding balance_scores_analyze using tot
    by (simp add: weekly_recommendations_def get_or_def nutrient_balance_score_def)
qed


theorem analyze_gaps_and_excesses_witness:
  "(''protein'', 350) \<in> set weekly_recommendations \<and>
   (''carbs'', 1400) \<in> set weekly_recommendations \<and>
   set carb_week = {carb_meal} \<and>
   ''protein'' \<notin> fst ` set (get_or (nutrition carb_meal) []) \<and>
   gaps (analyze_nutrition_gaps carb_week) ''protein'' = Some 350 \<and>
   excesses (analyze_nutrition_gaps carb_week) ''protein'' = None \<and>
   gaps (analyze_nutrition_gaps carb_week) ''carbs'' = None \<and>
   excesses (analyze_nutrition_gaps carb_week) ''carbs'' = Some 350 \<and>
   snd (analysis_loop carb_week) ! 0 = 0"
proof -
  have lack: "\<forall>m \<in> set carb_week. ''protein'' \<notin> fst ` set (get_or (nutrition m) [])"
    by (simp add: carb_week_def carb_meal_def empty_meal_def get_or_def)
  have p: "(''protein'', 350) \<in> set weekly_recommendations"
    and c: "(''carbs'', 1400) \<in> set weekly_recommendations"
    by (simp_all add: weekly_recommendations_def)
  have tc: "nutrition_totals carb_week ''carbs'' = Some 1750"
    by (simp add: nutrition_totals_def add_nutrition_def carb_week_def carb_meal_def
        empty_meal_def get_or_def)
  have tp: "nutrition_totals carb_week ''protein'' = None"
    by (simp add: nutrition_totals_def add_nutrition_def carb_week_def carb_meal_def
        empty_meal_def get_or_def)
  have members: "set carb_week = {carb_meal}"
    by (simp add: carb_week_def)
  have lack1: "''protein'' \<notin> fst ` set (get_or (nutrition carb_meal) [])"
    by (simp add: carb_meal_def empty_meal_def get_or_def)
  show ?thesis
    using analyze_gaps_and_excesses [of carb_week] lack p c tc tp members lack1
    by (auto simp: get_or_def)
qed

section \<open>Properties of the weighted choice\<close>

lemma choice_loop_select:
  assumes "k < length ws"
    and "\<forall>j<k. c + sum_list (take (Suc j) ws) < rv"
    and "rv \<le> c + sum_list (take (Suc k) ws)"
    and "i + k < length items"
  shows "choice_loop items ws i c rv = Inr (Some (items ! (i + k)))"
  using assms
proof (induction ws arbitrary: i c k)
  case Nil
  then show ?case by simp
next
  case (Cons w ws)
  show ?case
  proof (cases k)
    case 0
    then show ?thesis using Cons.prems by simp
  next
    case (Suc k')
    have "c + sum_list (take (Suc 0) (w # ws)) < rv"
      using Cons.prems(2) Suc by blast
    then have first: "\<not> rv \<le> c + w" by simp
    have a: "k' < length ws" using Cons.prems(1) Suc by simp
    have b: "\<forall>j<k'. (c + w) + sum_list (take (Suc j) ws) < rv"
    proof (intro allI impI)
      fix j assume "j < k'"
      then have "Suc j < k" using Suc by simp
      then have "c + sum_list (take (Suc (Suc j)) (w # ws)) < rv"
        using Cons.prems(2) by blast
      then show "(c + w) + sum_list (take (Suc j) ws) < rv" by (simp add: add.assoc)
    qed
    have c': "rv \<le> (c + w) + sum_list (take (Suc k') ws)"
      using Cons.prems(3) Suc by (simp add: add.assoc)
    have d: "Suc i + k' < length items" using Cons.prems(4) Suc by simp
    have "choice_loop items ws (Suc i) (c + w) rv = Inr (Some (items ! (Suc i + k')))"
      by (rule Cons.IH [OF a b c' d])
    then show ?thesis using first Suc by (simp add: Let_def)
  qed
qed

lemma first_reaching_exists:
  assumes "ws \<noteq> []" and "(rv::real) \<le> sum_list ws"
  shows "\<exists>k<length ws. rv \<le> sum_list (take (Suc k) ws) \<and>
           (\<forall>j<k. sum_list (take (Suc j) ws) < rv)"
proof -
  define P where "P k \<longleftrightarrow> rv \<le> sum_list (take (Suc k) ws)" for k
  have last: "P (length ws - 1)"
    using assms by (simp add: P_def)
  define k where "k = (LEAST k. P k)"
  have "P k" unfolding k_def using last by (rule LeastI)
  moreover have "k \<le> length ws - 1" unfolding k_def using last by (rule Least_le)
  then have "k < length ws" using assms(1) by (cases ws) auto
  moreover have "\<forall>j<k. \<not> P j" unfolding k_def using not_less_Least by blast
  ultimately have "k < length ws \<and> rv \<le> sum_list (take (Suc k) ws) \<and>
      (\<forall>j<k. sum_list (take (Suc j) ws) < rv)"
    unfolding P_def by (simp add: not_le)
  then show ?thesis by blast
qed

lemma sum_list_take_mono:
  assumes "\<forall>w\<in>set ws. 0 \<le> (w::real)" and "a \<le> b"
  shows "sum_list (take a ws) \<le> sum_list (take b ws)"
proof -
  have "take b ws = take a ws @ take (b - a) (drop a ws)"
    using assms(2) by (metis le_add_diff_inverse take_add)
  moreover have "0 \<le> sum_list (take (b - a) (drop a ws))"
    using assms(1) by (intro sum_list_nonneg) (meson in_set_dropD in_set_takeD)
  ultimately show ?thesis by simp
qed

lemma sum_list_take_nonneg:
  "\<forall>w\<in>set ws. 0 \<le> (w::real) \<Longrightarrow> 0 \<le> sum_list (take a ws)"
  by (intro sum_list_nonneg) (meson in_set_takeD)

lemma sum_list_take_Suc:
  "k < length ws \<Longrightarrow> sum_list (take (Suc k) ws) = sum_list (take k ws) + (ws ! k :: real)"
  by (simp add: take_Suc_conv_app_nth)

lemma candidate_weights_positive:
  "\<forall>c\<in>set cands. 0 \<le> snd c \<Longrightarrow> \<forall>w\<in>set (candidate_weights cands). 0 < w"
  by (auto simp: candidate_weights_def)

lemma length_candidate_weights: "length (candidate_weights cands) = length cands"
  by (simp add: candidate_weights_def)

text \<open>
  C7. For a non-empty list of candidates with non-negative scores, weighted \<open>score + 0.1\<close>,
  and a draw between 0 and the total weight, \<open>weighted_random_choice\<close> returns the first
  candidate whose cumulative weight reaches the draw. Every candidate, a zero-scoring one
  too, is selected by each draw of an interval of positive length inside the range of the
  draws: the draws above the cumulative weight before it and up to its own.
\<close>

theorem weighted_choice_first_reaching:
  assumes "cands \<noteq> []" and "\<forall>c\<in>set cands. 0 \<le> snd c"
    and "0 \<le> uniform 0 (sum_list (candidate_weights cands))"
    and "uniform 0 (sum_list (candidate_weights cands)) \<le> sum_list (candidate_weights cands)"
  shows "(\<exists>k<length cands.
            weighted_random_choice cands (candidate_weights cands) uniform = Inr (Some (cands ! k)) \<and>
            uniform 0 (sum_list (candidate_weights cands))
              \<le> sum_list (take (Suc k) (candidate_weights cands)) \<and>
            (\<forall>j<k. sum_list (take (Suc j) (candidate_weights cands))
                     < uniform 0 (sum_list (candidate_weights cands)))) \<and>
         (\<forall>k<length cands.
            0 \<le> sum_list (take k (candidate_weights cands)) \<and>
            sum_list (take k (candidate_weights cands))
              < sum_list (take (Suc k) (candidate_weights cands)) \<and>
            sum_list (take (Suc k) (candidate_weights cands)) \<le> sum_list (candidate_weights cands) \<and>
            (\<forall>v. sum_list (take k (candidate_weights cands)) < v \<and>
                 v \<le> sum_list (take (Suc k) (candidate_weights cands)) \<longrightarrow>
                 weighted_random_choice cands (candidate_weights cands) (\<lambda>a b. v)
                   = Inr (Some (cands ! k))))"
proof -
  define ws where "ws = candidate_weights cands"
  have len: "length ws = length cands" by (simp add: ws_def length_candidate_weights)
  have pos: "\<forall>w\<in>set ws. 0 < w" unfolding ws_def using assms(2) by (rule candidate_weights_positive)
  then have nonneg: "\<forall>w\<in>set ws. 0 \<le> w" by fastforce
  have ne: "ws \<noteq> []" using assms(1) len by auto
  have part1: "\<exists>k<length cands.
            weighted_random_choice cands ws uniform = Inr (Some (cands ! k)) \<and>
            uniform 0 (sum_list ws) \<le> sum_list (take (Suc k) ws) \<and>
            (\<forall>j<k. sum_list (take (Suc j) ws) < uniform 0 (sum_list ws))"
  proof -
    obtain k where k: "k < length ws" "uniform 0 (sum_list ws) \<le> sum_list (take (Suc k) ws)"
      "\<forall>j<k. sum_list (take (Suc j) ws) < uniform 0 (sum_list ws)"
      using first_reaching_exists [OF ne] assms(4) unfolding ws_def by blast
    have "choice_loop cands ws 0 0 (uniform 0 (sum_list ws)) = Inr (Some (cands ! (0 + k)))"
      using k len by (intro choice_loop_select) simp_all
    then show ?thesis
      using k len by (auto simp: weighted_random_choice_def Let_def)
  qed
  have part2: "\<forall>k<length cands.
            0 \<le> sum_list (take k ws) \<and>
            sum_list (take k ws) < sum_list (take (Suc k) ws) \<and>
            sum_list (take (Suc k) ws) \<le> sum_list ws \<and>
            (\<forall>v. sum_list (take k ws) < v \<and> v \<le> sum_list (take (Suc k) ws) \<longrightarrow>
                 weighted_random_choice cands ws (\<lambda>a b. v) = Inr (Some (cands ! k)))"
  proof (intro allI impI conjI)
    fix k assume k: "k < length cands"
    then have kw: "k < length ws" using len by simp
    show "0 \<le> sum_list (take k ws)" using nonneg by (rule sum_list_take_nonneg)
    have "0 < ws ! k" using pos kw by simp
    then show "sum_list (take k ws) < sum_list (take (Suc k) ws)"
      using kw by (simp add: sum_list_take_Suc)
    have "sum_list (take (Suc k) ws) \<le> sum_list (take (length ws) ws)"
      using nonneg kw by (intro sum_list_take_mono) simp_all
    then show "sum_list (take (Suc k) ws) \<le> sum_list ws" by simp
  next
    fix k v assume k: "k < length cands"
      and v: "sum_list (take k ws) < v \<and> v \<le> sum_list (take (Suc k) ws)"
    have kw: "k < length ws" using k len by simp
    have before: "\<forall>j<k. 0 + sum_list (take (Suc j) ws) < v"
    proof (intro allI impI)
      fix j assume "j < k"
      then have "sum_list (take (Suc j) ws) \<le> sum_list (take k ws)"
        using nonneg by (intro sum_list_take_mono) simp_all
      then show "0 + sum_list (take (Suc j) ws) < v" using v by simp
    qed
    have "choice_loop cands ws 0 0 v = Inr (Some (cands ! (0 + k)))"
      using kw before v k by (intro choice_loop_select) simp_all
    then show "weighted_random_choice cands ws (\<lambda>a b. v) = Inr (Some (cands ! k))"
      by (simp add: weighted_random_choice_def Let_def)
  qed
  show ?thesis using part1 part2 unfolding ws_def by blast
qed

theorem weighted_choice_first_reaching_witness:
  "two_candidates \<noteq> [] \<and>
   0 \<le> snd (two_candidates ! 0) \<and> snd (two_candidates ! 1) = 0 \<and>
   candidate_weights two_candidates = [0.6, 0.1] \<and>
   0 \<le> draw_of 0.65 0 (sum_list (candidate_weights two_candidates)) \<and>
   draw_of 0.65 0 (sum_list (candidate_weights two_candidates))
     \<le> sum_list (candidate_weights two_candidates) \<and>
   weighted_random_choice two_candidates (candidate_weights two_candidates) (draw_of 0.65)
     = Inr (Some (two_candidates ! 1))"
proof -
  have ws: "candidate_weights two_candidates = [0.6, 0.1]"
    by (simp add: candidate_weights_def two_candidates_def)
  have h1: "two_candidates \<noteq> []"
    by (simp add: two_candidates_def)
  have h2: "\<forall>c\<in>set two_candidates. 0 \<le> snd c"
    by (simp add: two_candidates_def)
  have h3: "0 \<le> draw_of 0.65 0 (sum_list (candidate_weights two_candidates))"
    by (simp add: draw_of_def)
  have h4: "draw_of 0.65 0 (sum_list (candidate_weights two_candidates))
      \<le> sum_list (candidate_weights two_candidates)"
    by (simp add: draw_of_def ws)
  have len: "1 < length two_candidates"
    by (simp add: two_candidates_def)
  have d: "draw_of 0.65 = (\<lambda>a b. 0.65)"
    by (simp add: draw_of_def fun_eq_iff)
  have "\<forall>v. sum_list (take 1 (candidate_weights two_candidates)) < v \<and>
             v \<le> sum_list (take (Suc 1) (candidate_weights two_candidates)) \<longrightarrow>
             weighted_random_choice two_candidates (candidate_weights two_candidates) (\<lambda>a b. v)
               = Inr (Some (two_candidates ! 1))"
    using weighted_choice_first_reaching [of two_candidates "draw_of 0.65", OF h1 h2 h3 h4] len
    by blast
  then have "weighted_random_choice two_candidates (candidate_weights two_candidates)
      (\<lambda>a b. 0.65) = Inr (Some (two_candidates ! 1))"
    by (simp add: ws)
  then show ?thesis
    using h1 h3 h4 ws d by (simp add: two_candidates_def)
qed

section \<open>Properties of the plan generator\<close>

lemma analyze_avg_prep_time:
  "get_or (avg_prep_time (analyze_user_preferences meal_history)) (PyNum 30) \<noteq> PyNum 0"
  by (simp add: analyze_user_preferences_def default_preferences_def get_or_def Let_def)

lemma calculate_meal_score_total:
  "get_or (avg_prep_time user_prefs) (PyNum 30) \<noteq> PyNum 0 \<Longrightarrow>
   \<exists>s. calculate_meal_score m user_prefs recent_meals = Inr s"
  using time_diff_total [of "get_or (avg_prep_time user_prefs) (PyNum 30)" "get_or (prepTime m) 30"]
  by (auto simp: calculate_meal_score_def Let_def)

lemma score_all_total:
  assumes "get_or (avg_prep_time user_prefs) (PyNum 30) \<noteq> PyNum 0"
  shows "\<exists>scored. score_all user_prefs recent_meals ms = Inr scored \<and> map fst scored = ms"
proof (induction ms)
  case Nil
  then show ?case by simp
next
  case (Cons m ms)
  obtain s where "calculate_meal_score m user_prefs recent_meals = Inr s"
    using calculate_meal_score_total [OF assms] by blast
  moreover obtain scored where "score_all user_prefs recent_meals ms = Inr scored"
    "map fst scored = ms"
    using Cons.IH by blast
  ultimately show ?case by simp
qed

lemma choice_loop_member:
  assumes "items \<noteq> []" and "i + length ws \<le> length items"
  shows "\<exists>x\<in>set items. choice_loop items ws i c rv = Inr (Some x)"
  using assms
proof (induction ws arbitrary: i c)
  case Nil
  then show ?case by simp
next
  case (Cons w ws)
  have "i < length items" using Cons.prems(2) by simp
  moreover have "\<exists>x\<in>set items. choice_loop items ws (Suc i) (c + w) rv = Inr (Some x)"
    using Cons.prems by (intro Cons.IH) simp_all
  ultimately show ?case by (simp add: Let_def)
qed

lemma weighted_random_choice_member:
  assumes "items \<noteq> []" and "length ws = length items"
  shows "\<exists>x\<in>set items. weighted_random_choice items ws u = Inr (Some x)"
  using choice_loop_member [OF assms(1), of 0 ws] assms(2)
  by (simp add: weighted_random_choice_def Let_def)

lemma plan_day_selects:
  assumes "meal_scores \<noteq> []"
  shows "\<exists>x\<in>set meal_scores. \<exists>used.
           plan_day rng meal_scores st =
             Inr \<lparr>selected_meals = selected_meals st @ [fst x], used_meals = used,
                  draws = Suc (draws st)\<rparr>"
proof -
  define pool where "pool =
    (let available_candidates =
           filter (\<lambda>c. get_or (name (fst c)) [] \<notin> used_meals st) meal_scores
     in if available_candidates = [] then meal_scores else available_candidates)"
  have ne: "pool \<noteq> []" using assms by (simp add: pool_def Let_def)
  have sub: "set pool \<subseteq> set meal_scores" by (auto simp: pool_def Let_def)
  obtain x where x: "x \<in> set pool"
    "weighted_random_choice pool (candidate_weights pool) (rng (draws st)) = Inr (Some x)"
    using weighted_random_choice_member [OF ne length_candidate_weights] by blast
  have "\<exists>used. plan_day rng meal_scores st =
      Inr \<lparr>selected_meals = selected_meals st @ [fst x], used_meals = used,
           draws = Suc (draws st)\<rparr>"
    using x(2) ne unfolding plan_day_def pool_def Let_def by (simp split: if_splits)
  then show ?thesis using x(1) sub by blast
qed

lemma plan_loop_selects:
  assumes "meal_scores \<noteq> []"
  shows "\<exists>st'. plan_loop rng meal_scores n st = Inr st' \<and>
           length (selected_meals st') = length (selected_meals st) + n \<and>
           set (selected_meals st') \<subseteq> set (selected_meals st) \<union> fst ` set meal_scores"
proof (induction n arbitrary: st)
  case 0
  then show ?case by simp
next
  case (Suc n)
  obtain x used where x: "x \<in> set meal_scores"
    "plan_day rng meal_scores st =
       Inr \<lparr>selected_meals = selected_meals st @ [fst x], used_meals = used,
            draws = Suc (draws st)\<rparr>"
    using plan_day_selects [OF assms] by blast
  define st1 where "st1 = \<lparr>selected_meals = selected_meals st @ [fst x], used_meals = used,
            draws = Suc (draws st)\<rparr>"
  obtain st' where st': "plan_loop rng meal_scores n st1 = Inr st'"
    "length (selected_meals st') = length (selected_meals st1) + n"
    "set (selected_meals st') \<subseteq> set (selected_meals st1) \<union> fst ` set meal_scores"
    using Suc.IH by blast
  have "plan_loop rng meal_scores (Suc n) st = Inr st'"
    using x(2) st'(1) by (simp add: st1_def)
  moreover have "length (selected_meals st') = length (selected_meals st) + Suc n"
    using st'(2) by (simp add: st1_def)
  moreover have "set (selected_meals st') \<subseteq> set (selected_meals st) \<union> fst ` set meal_scores"
    using st'(3) x(1) by (auto simp: st1_def)
  ultimately show ?case by blast
qed

lemma set_balance: "set (balance_nutrition_weekly meals) = set meals"
  using mset_balance [of meals] by (metis set_mset_mset)

lemma length_balance: "length (balance_nutrition_weekly meals) = length meals"
  using mset_balance [of meals] by (metis size_mset)

lemma generate_empty:
  "filtered_meals available_meals dietary_restrictions = [] \<Longrightarrow>
   generate_smart_meal_plan rng available_meals meal_history days dietary_restrictions = Inr []"
  by (simp add: generate_smart_meal_plan_def)

lemma generate_nonempty:
  assumes "filtered_meals available_meals dietary_restrictions \<noteq> []"
  shows "\<exists>plan. generate_smart_meal_plan rng available_meals meal_history days
             dietary_restrictions = Inr plan \<and>
           length plan = nat days \<and>
           set plan \<subseteq> set (filtered_meals available_meals dietary_restrictions)"
proof -
  define recent where "recent =
    map (\<lambda>m. get_or (name m) []) (drop (length meal_history - 14) meal_history)"
  obtain scored where scored:
    "score_all (analyze_user_preferences meal_history) recent
       (filtered_meals available_meals dietary_restrictions) = Inr scored"
    "map fst scored = filtered_meals available_meals dietary_restrictions"
    using score_all_total [OF analyze_avg_prep_time] by blast
  define sorted_scores where "sorted_scores = sort_key (\<lambda>x. - snd x) scored"
  have fst_sorted: "fst ` set sorted_scores = set (filtered_meals available_meals dietary_restrictions)"
    using scored(2) by (metis sorted_scores_def set_sort set_map)
  have "scored \<noteq> []" using scored(2) assms by auto
  then have "sorted_scores \<noteq> []"
    by (metis sorted_scores_def length_sort length_0_conv)
  then obtain st' where st':
    "plan_loop rng sorted_scores (nat days) \<lparr>selected_meals = [], used_meals = {}, draws = 0\<rparr>
       = Inr st'"
    "length (selected_meals st') =
       length (selected_meals \<lparr>selected_meals = [], used_meals = {}, draws = 0\<rparr>) + nat days"
    "set (selected_meals st') \<subseteq>
       set (selected_meals \<lparr>selected_meals = [], used_meals = {}, draws = 0\<rparr>)
         \<union> fst ` set sorted_scores"
    using plan_loop_selects by blast
  have "generate_smart_meal_plan rng available_meals meal_history days dietary_restrictions
      = Inr (balance_nutrition_weekly (selected_meals st'))"
    using assms scored(1) st'(1)
    by (simp add: generate_smart_meal_plan_def Let_def recent_def sorted_scores_def)
  moreover have "length (balance_nutrition_weekly (selected_meals st')) = nat days"
    using st'(2) by (simp add: length_balance)
  moreover have "set (balance_nutrition_weekly (selected_meals st'))
      \<subseteq> set (filtered_meals available_meals dietary_restrictions)"
    using st'(3) fst_sorted by (simp add: set_balance)
  ultimately show ?thesis by blast
qed

text \<open>
  C1, as the claim states it, fails for a day count of 0 or less: with a non-empty
  filtered catalog the plan for 0 days, and for -1 days, is empty.
\<close>

theorem generate_plan_empty_counterexample:
  "filtered_meals [protein_meal] [] \<noteq> [] \<and>
   generate_smart_meal_plan (constant_rng 0) [protein_meal] [] 0 [] = Inr [] \<and>
   generate_smart_meal_plan (constant_rng 0) [protein_meal] [] (- 1) [] = Inr []"
  by code_simp

text \<open>
  C1, amended. For every pseudorandom source, catalog, history, restriction list and day
  count \<open>d\<close>: when the filtered catalog is non-empty, \<open>generate_smart_meal_plan\<close> returns a
  plan of exactly \<open>max 0 d\<close> meals, that is \<open>d\<close> meals for \<open>d \<ge> 0\<close>; and it returns the
  empty plan if and only if the filtered catalog is empty or \<open>d \<le> 0\<close>.
\<close>

theorem generate_plan_length:
  "(filtered_meals available_meals dietary_restrictions \<noteq> [] \<longrightarrow>
      (\<exists>plan. generate_smart_meal_plan rng available_meals meal_history days
                 dietary_restrictions = Inr plan \<and>
               int (length plan) = max 0 days)) \<and>
   (generate_smart_meal_plan rng available_meals meal_history days dietary_restrictions = Inr []
      \<longleftrightarrow> filtered_meals available_meals dietary_restrictions = [] \<or> days \<le> 0)"
proof (cases "filtered_meals available_meals dietary_restrictions = []")
  case True
  then show ?thesis by (simp add: generate_empty)
next
  case False
  obtain plan where plan:
    "generate_smart_meal_plan rng available_meals meal_history days dietary_restrictions
       = Inr plan" "length plan = nat days"
    using generate_nonempty [OF False] by blast
  have "plan = [] \<longleftrightarrow> days \<le> 0" using plan(2) by auto
  moreover have "int (length plan) = max 0 days" using plan(2) by simp
  ultimately show ?thesis using plan(1) False by simp
qed

theorem generate_plan_length_witness:
  "filtered_meals [protein_meal, vegan_chicken] [] \<noteq> [] \<and>
   generate_smart_meal_plan (constant_rng 0) [protein_meal, vegan_chicken] [] 3 []
     = Inr [vegan_chicken, protein_meal, vegan_chicken] \<and>
   int (length [vegan_chicken, protein_meal, vegan_chicken]) = max 0 3 \<and>
   filtered_meals [vegan_chicken] [''vegetarian''] = [] \<and>
   generate_smart_meal_plan (constant_rng 0) [vegan_chicken] [] 3 [''vegetarian''] = Inr []"
proof -
  have run: "generate_smart_meal_plan (constant_rng 0) [protein_meal, vegan_chicken] [] 3 []
      = Inr [vegan_chicken, protein_meal, vegan_chicken]"
    by code_simp
  have some: "filtered_meals [protein_meal, vegan_chicken] [] \<noteq> []"
    by code_simp
  have none: "filtered_meals [vegan_chicken] [''vegetarian''] = []"
    by code_simp
  show ?thesis
    using generate_plan_length [of "[protein_meal, vegan_chicken]" "[]" "constant_rng 0" "[]" 3]
      generate_plan_length [of "[vegan_chicken]" "[''vegetarian'']" "constant_rng 0" "[]" 3]
      run some none
    by simp
qed

text \<open>
  C9. Every meal of a plan that \<open>generate_smart_meal_plan\<close> returns is a meal of the
  supplied catalog and meets the supplied dietary restrictions.
\<close>

theorem plan_meals_admissible:
  assumes "generate_smart_meal_plan rng available_meals meal_history days dietary_restrictions
             = Inr plan"
  shows "\<forall>m\<in>set plan. m \<in> set available_meals \<and>
           meets_dietary_restrictions m dietary_restrictions"
proof (cases "filtered_meals available_meals dietary_restrictions = []")
  case True
  then show ?thesis using assms by (simp add: generate_empty)
next
  case False
  then have "set plan \<subseteq> set (filtered_meals available_meals dietary_restrictions)"
    using generate_nonempty [OF False, of rng meal_history days] assms by auto
  then show ?thesis by (auto simp: filtered_meals_def)
qed



theorem plan_meals_admissible_witness:
  "generate_smart_meal_plan (constant_rng 0) [protein_meal, vegan_chicken] [] 2 [''vegetarian'']
     = Inr [protein_meal, protein_meal] \<and>
   protein_meal \<in> set [protein_meal, vegan_chicken] \<and>
   meets_dietary_restrictions protein_meal [''vegetarian''] \<and>
   \<not> meets_dietary_restrictions vegan_chicken [''vegetarian'']"
proof -
  have run: "generate_smart_meal_plan (constant_rng 0) [protein_meal, vegan_chicken] []
      2 [''vegetarian''] = Inr [protein_meal, protein_meal]"
    by code_simp
  have out: "\<not> meets_dietary_restrictions vegan_chicken [''vegetarian'']"
    by code_simp
  show ?thesis
    using plan_meals_admissible [OF run] run out by simp
qed

text \<open>
  C8 does not hold of the code: the prep-time division has no guard. A history whose
  only entry has prep time 0 gives the preferred prep time 0, a \<^verbatim>\<open>numpy.float64\<close>; the
  score of a meal with the default prep time 30 then divides 30 by zero (the quotient is
  \<^verbatim>\<open>inf\<close>), and the score of a meal with prep time 0 divides 0 by zero (\<^verbatim>\<open>nan\<close>). With a
  Python 0 as the preferred prep time of the profile, \<open>calculate_meal_score\<close> raises
  \<^verbatim>\<open>ZeroDivisionError\<close>.
\<close>

theorem prep_time_division_by_zero:
  "avg_prep_time (analyze_user_preferences [zero_prep_meal]) = Some (NpFloat 0) \<and>
   time_diff (get_or (prepTime protein_meal) 30) (NpFloat 0) = Inr Infinity \<and>
   time_diff (get_or (prepTime zero_prep_meal) 30) (NpFloat 0) = Inr NaN \<and>
   calculate_meal_score protein_meal (default_preferences\<lparr>avg_prep_time := Some (PyNum 0)\<rparr>) []
     = Inl ZeroDivisionError"
  by code_simp

end
